theory Spec2Isabelle
  imports Complex_Main
begin

section \<open>Python values\<close>

text \<open>
  A Python \<^verbatim>\<open>str\<close> is a sequence of Unicode code points, so a character is modelled as
  its code point and a string as a list of them. \<open>ascii\<close> embeds an ASCII literal; the
  bullet character of \<^verbatim>\<open>lstrip("-\<bullet> ")\<close> is the single code point U+2022.
\<close>

type_synonym pychar = nat
type_synonym pystr = "pychar list"

definition ascii :: "string \<Rightarrow> pystr" where
  "ascii s = map of_char s"

definition BULLET :: pychar where
  "BULLET = 8226"

text \<open>The exceptions the program can meet.\<close>

datatype error =
    ValueError
  | IndexError
  | JSONDecodeError
  | RuntimeError pystr
  | APIError pystr
  | UnicodeEncodeError

text \<open>
  What \<^verbatim>\<open>json.loads\<close> can return. The program only asks whether a value is a list and
  whether an element is a string, so a number keeps its literal text.
\<close>

datatype json =
    JNull
  | JBool bool
  | JNumber pystr
  | JStr pystr
  | JList "json list"
  | JDict "(pystr \<times> json) list"

text \<open>
  The parts of the Python runtime that the repository calls but does not contain:
  \<^verbatim>\<open>json.loads\<close> (an \<open>Inl\<close> result is any exception it raises, all of them subclasses of
  \<^verbatim>\<open>Exception\<close>) and the Unicode table behind \<^verbatim>\<open>str.isdigit\<close>, which depends on the
  interpreter's Unicode version. Both are parameters of the model.
\<close>

record pylib =
  json_loads :: "pystr \<Rightarrow> error + json"
  isdigit :: "pychar \<Rightarrow> bool"

subsection \<open>String methods\<close>

text \<open>\<^verbatim>\<open>str.strip()\<close> without argument removes the characters Python counts as whitespace.\<close>

definition isspace :: "pychar \<Rightarrow> bool" where
  "isspace c \<longleftrightarrow>
     (9 \<le> c \<and> c \<le> 13) \<or> (28 \<le> c \<and> c \<le> 32) \<or> c = 133 \<or> c = 160 \<or> c = 5760 \<or>
     (8192 \<le> c \<and> c \<le> 8202) \<or> c = 8232 \<or> c = 8233 \<or> c = 8239 \<or> c = 8287 \<or> c = 12288"

definition strip :: "pystr \<Rightarrow> pystr" where
  "strip s = rev (dropWhile isspace (rev (dropWhile isspace s)))"

text \<open>\<^verbatim>\<open>s.lstrip(chars)\<close> removes the leading characters that occur in \<open>chars\<close>.\<close>

definition lstrip :: "pystr \<Rightarrow> pystr \<Rightarrow> pystr" where
  "lstrip chars s = dropWhile (\<lambda>c. c \<in> set chars) s"

text \<open>The line boundaries of \<^verbatim>\<open>str.splitlines()\<close>; \<^verbatim>\<open>\r\n\<close> is one boundary.\<close>

definition islinebreak :: "pychar \<Rightarrow> bool" where
  "islinebreak c \<longleftrightarrow> c \<in> set [10, 11, 12, 13, 28, 29, 30, 133, 8232, 8233]"

fun splitlines_from :: "pystr \<Rightarrow> pystr \<Rightarrow> pystr list" where
  "splitlines_from cur [] = (if cur = [] then [] else [cur])"
| "splitlines_from cur [c] = (if islinebreak c then [cur] else [cur @ [c]])"
| "splitlines_from cur (c # d # cs) =
     (if c = 13 \<and> d = 10 then cur # splitlines_from [] cs
      else if islinebreak c then cur # splitlines_from [] (d # cs)
      else splitlines_from (cur @ [c]) (d # cs))"

definition splitlines :: "pystr \<Rightarrow> pystr list" where
  "splitlines s = splitlines_from [] s"

text \<open>\<^verbatim>\<open>s.index(c)\<close> and \<^verbatim>\<open>s.rindex(c)\<close> raise \<^verbatim>\<open>ValueError\<close> when \<open>c\<close> does not occur.\<close>

definition py_index :: "pystr \<Rightarrow> pychar \<Rightarrow> error + nat" where
  "py_index s c =
     (if c \<in> set s then Inr (length (takeWhile (\<lambda>x. x \<noteq> c) s)) else Inl ValueError)"

definition py_rindex :: "pystr \<Rightarrow> pychar \<Rightarrow> error + nat" where
  "py_rindex s c =
     (if c \<in> set s then Inr (length s - 1 - length (takeWhile (\<lambda>x. x \<noteq> c) (rev s)))
      else Inl ValueError)"

text \<open>\<^verbatim>\<open>s[a:b]\<close> for indices that are not negative.\<close>

definition py_slice :: "'a list \<Rightarrow> nat \<Rightarrow> nat \<Rightarrow> 'a list" where
  "py_slice s a b = drop a (take b s)"

text \<open>\<^verbatim>\<open>s[i]\<close> for an index that is not negative raises \<^verbatim>\<open>IndexError\<close> out of range.\<close>

definition py_get :: "'a list \<Rightarrow> nat \<Rightarrow> error + 'a" where
  "py_get xs i = (if i < length xs then Inr (xs ! i) else Inl IndexError)"

text \<open>\<^verbatim>\<open>str(n)\<close> for an integer.\<close>

fun str_nat :: "nat \<Rightarrow> pystr" where
  "str_nat n = (if n < 10 then [48 + n] else str_nat (n div 10) @ [48 + n mod 10])"

declare str_nat.simps [simp del]

definition str_int :: "int \<Rightarrow> pystr" where
  "str_int n = (if n < 0 then 45 # str_nat (nat (- n)) else str_nat (nat n))"

section \<open>The response parser: \<^verbatim>\<open>extract_json_array\<close>\<close>

text \<open>
  The body of the \<^verbatim>\<open>try\<close> block. \<open>json_candidate\<close> is the text from the first
  \<^verbatim>\<open>[\<close> to the last \<^verbatim>\<open>]\<close>. The block ends in one of three ways: an exception (which the
  handler swallows), a \<^verbatim>\<open>return\<close> of the ideas (\<open>Inr (Some ideas)\<close>), or falling out of the
  \<^verbatim>\<open>if\<close> (\<open>Inr None\<close>).
\<close>

definition json_candidate :: "pystr \<Rightarrow> error + pystr" where
  "json_candidate text =
     (case py_index text 91 of
        Inl e \<Rightarrow> Inl e
      | Inr start \<Rightarrow>
          (case py_rindex text 93 of
             Inl e \<Rightarrow> Inl e
           | Inr r \<Rightarrow> Inr (py_slice text start (r + 1))))"

fun as_str :: "json \<Rightarrow> pystr option" where
  "as_str (JStr s) = Some s"
| "as_str _ = None"

text \<open>\<open>Some\<close> of the elements when \<^verbatim>\<open>all(isinstance(i, str) for i in arr)\<close>.\<close>

fun all_str :: "json list \<Rightarrow> pystr list option" where
  "all_str [] = Some []"
| "all_str (j # js) =
     (case as_str j of
        None \<Rightarrow> None
      | Some s \<Rightarrow> (case all_str js of None \<Rightarrow> None | Some ss \<Rightarrow> Some (s # ss)))"

definition try_json_array :: "pylib \<Rightarrow> pystr \<Rightarrow> error + pystr list option" where
  "try_json_array L text =
     (case json_candidate text of
        Inl e \<Rightarrow> Inl e
      | Inr candidate \<Rightarrow>
          (case json_loads L candidate of
             Inl e \<Rightarrow> Inl e
           | Inr (JList arr) \<Rightarrow>
               (case all_str arr of
                  Some strs \<Rightarrow> Inr (Some [strip i. i \<leftarrow> strs, i \<noteq> [] \<and> strip i \<noteq> []])
                | None \<Rightarrow> Inr None)
           | Inr _ \<Rightarrow> Inr None))"

text \<open>
  The inner \<^verbatim>\<open>while\<close> loop: the index advances over digits and the characters of
  \<^verbatim>\<open>".) "\<close>.
\<close>

function skip_numbering :: "pylib \<Rightarrow> pystr \<Rightarrow> nat \<Rightarrow> error + nat" where
  "skip_numbering L line i =
     (if i < length line then
        (case py_get line i of
           Inl e \<Rightarrow> Inl e
         | Inr c \<Rightarrow>
             if isdigit L c \<or> c \<in> set (ascii ''.) '') then skip_numbering L line (i + 1)
             else Inr i)
      else Inr i)"
  by pat_completeness auto
termination
  by (relation "measure (\<lambda>(L, line, i). length line - i)") auto

declare skip_numbering.simps [simp del]

text \<open>The body of the \<^verbatim>\<open>for\<close> loop up to the final test, for one line.\<close>

definition clean_line :: "pylib \<Rightarrow> pystr \<Rightarrow> error + pystr" where
  "clean_line L line0 =
     (let line = lstrip (ascii ''-'' @ [BULLET] @ ascii '' '') line0 in
      if line \<noteq> [] then
        (case py_get line 0 of
           Inl e \<Rightarrow> Inl e
         | Inr c \<Rightarrow>
             if isdigit L c then
               (case skip_numbering L line 0 of
                  Inl e \<Rightarrow> Inl e
                | Inr i \<Rightarrow> Inr (strip (drop i line)))
             else Inr line)
      else Inr line)"

fun clean_lines :: "pylib \<Rightarrow> pystr list \<Rightarrow> pystr list \<Rightarrow> error + pystr list" where
  "clean_lines L [] cleaned = Inr cleaned"
| "clean_lines L (line # lines) cleaned =
     (case clean_line L line of
        Inl e \<Rightarrow> Inl e
      | Inr line' \<Rightarrow> clean_lines L lines (if line' \<noteq> [] then cleaned @ [line'] else cleaned))"

definition extract_json_array :: "pylib \<Rightarrow> pystr \<Rightarrow> error + pystr list" where
  "extract_json_array L text0 =
     (let text = strip text0 in
      case try_json_array L text of
        Inr (Some ideas) \<Rightarrow> Inr ideas
      | _ \<Rightarrow> clean_lines L [strip line. line \<leftarrow> splitlines text, strip line \<noteq> []] [])"

section \<open>The remote service and \<^verbatim>\<open>call_openai_chat\<close>\<close>

text \<open>
  The world outside the function: the module attribute \<^verbatim>\<open>openai.api_key\<close> and the calls
  issued to the remote service so far. The service is a parameter: any function from the
  world at the time of the call and the request to its outcome, which is the text of the
  first choice or an exception. An answer that carries no text also counts as an exception:
  \<^verbatim>\<open>text.strip()\<close> raises on it just after the call.
\<close>

record chat_request =
  req_model :: pystr
  req_messages :: "(pystr \<times> pystr) list"
  req_max_tokens :: int
  req_temperature :: real

record world =
  api_key :: "pystr option"
  calls :: "chat_request list"

type_synonym service = "world \<Rightarrow> chat_request \<Rightarrow> error + pystr"

definition DEFAULT_MODEL :: pystr where
  "DEFAULT_MODEL = ascii ''gpt-3.5-turbo''"

definition MAX_TOKENS :: int where
  "MAX_TOKENS = 600"

definition DEFAULT_NUM_IDEAS :: int where
  "DEFAULT_NUM_IDEAS = 5"

text \<open>Truth value of \<^verbatim>\<open>None\<close> or a string.\<close>

definition truthy :: "pystr option \<Rightarrow> bool" where
  "truthy k = (case k of None \<Rightarrow> False | Some s \<Rightarrow> s \<noteq> [])"

definition system_content :: pystr where
  "system_content =
     ascii ''You are a helpful assistant that returns a strictly parseable JSON array '' @
     ascii ''of short, actionable content-creation ideas (strings).''"

text \<open>The arguments of \<^verbatim>\<open>openai.chat.completions.create\<close>.\<close>

definition chat_request_for :: "pystr \<Rightarrow> real \<Rightarrow> pystr \<Rightarrow> int \<Rightarrow> chat_request" where
  "chat_request_for prompt temperature model max_tokens =
     \<lparr>req_model = model,
      req_messages = [(ascii ''system'', system_content), (ascii ''user'', prompt)],
      req_max_tokens = max_tokens,
      req_temperature = temperature\<rparr>"

definition call_openai_chat ::
    "service \<Rightarrow> pystr \<Rightarrow> real \<Rightarrow> pystr \<Rightarrow> int \<Rightarrow> world \<Rightarrow> (error + pystr) \<times> world" where
  "call_openai_chat svc prompt temperature model max_tokens w =
     (if \<not> truthy (api_key w) then (Inl (RuntimeError (ascii ''OpenAI API key is not set.'')), w)
      else
        let req = chat_request_for prompt temperature model max_tokens
        in (svc w req, w\<lparr>calls := calls w @ [req]\<rparr>))"

section \<open>The idea generator: \<^verbatim>\<open>generate_ideas\<close>\<close>

definition primary_prompt :: "pystr \<Rightarrow> int \<Rightarrow> pystr \<Rightarrow> pystr \<Rightarrow> pystr" where
  "primary_prompt topic n style tone =
     ascii ''Topic: '' @ topic @ [10] @
     ascii ''Number of ideas: '' @ str_int n @ [10] @
     ascii ''Style: '' @ style @ [10] @
     ascii ''Tone: '' @ tone @ [10] @
     ascii ''Instructions: Return ONLY a JSON array of strings. Example: ['' @
     [34] @ ascii ''Idea 1'' @ [34] @ ascii '', '' @ [34] @ ascii ''Idea 2'' @ [34] @
     ascii '']'' @ [10] @
     ascii ''Each idea should be concise (preferably < 140 characters), actionable, and unique.''"

definition fallback_prompt :: "pystr \<Rightarrow> int \<Rightarrow> pystr \<Rightarrow> pystr \<Rightarrow> pystr" where
  "fallback_prompt topic n style tone =
     ascii ''Topic: '' @ topic @ [10] @
     ascii ''Number of ideas: '' @ str_int n @ [10] @
     ascii ''Style: '' @ style @ [10] @
     ascii ''Tone: '' @ tone @ [10] @
     ascii ''Return ONLY a JSON array of exactly the requested number of ideas (strings).''"

text \<open>\<^verbatim>\<open>xs[:n]\<close> for any integer \<open>n\<close>: a negative \<open>n\<close> counts from the end.\<close>

definition py_prefix :: "'a list \<Rightarrow> int \<Rightarrow> 'a list" where
  "py_prefix xs n =
     (if 0 \<le> n then take (nat n) xs else take (nat (int (length xs) + n)) xs)"

text \<open>
  The final \<^verbatim>\<open>while\<close> loop: a list that is not empty grows by a copy of its last element,
  an empty one by the placeholder built from the topic.
\<close>

function pad_ideas :: "pystr \<Rightarrow> int \<Rightarrow> pystr list \<Rightarrow> pystr list" where
  "pad_ideas topic n result =
     (if int (length result) < n then
        pad_ideas topic n
          (result @
             [if result \<noteq> [] then last result @ []
              else topic @ ascii '' - idea '' @ str_int (int (length result) + 1)])
      else result)"
  by pat_completeness auto
termination
  by (relation "measure (\<lambda>(topic, n, result). nat (n - int (length result)))") auto

declare pad_ideas.simps [simp del]

definition generate_ideas ::
    "pylib \<Rightarrow> service \<Rightarrow> pystr \<Rightarrow> int \<Rightarrow> pystr \<Rightarrow> pystr \<Rightarrow> real \<Rightarrow> world
       \<Rightarrow> (error + pystr list) \<times> world" where
  "generate_ideas L svc topic n style tone temperature w =
     (case call_openai_chat svc (primary_prompt topic n style tone) temperature
             DEFAULT_MODEL MAX_TOKENS w of
        (Inl e, w1) \<Rightarrow> (Inl e, w1)
      | (Inr raw, w1) \<Rightarrow>
          (case extract_json_array L raw of
             Inl e \<Rightarrow> (Inl e, w1)
           | Inr ideas \<Rightarrow>
               if n \<le> int (length ideas) then (Inr (py_prefix ideas n), w1)
               else if int (length ideas) < n then
                 (case call_openai_chat svc (fallback_prompt topic n style tone) temperature
                         DEFAULT_MODEL MAX_TOKENS w1 of
                    (Inl e, w2) \<Rightarrow> (Inl e, w2)
                  | (Inr raw2, w2) \<Rightarrow>
                      (case extract_json_array L raw2 of
                         Inl e \<Rightarrow> (Inl e, w2)
                       | Inr ideas2 \<Rightarrow>
                           if n \<le> int (length ideas2) then (Inr (py_prefix ideas2 n), w2)
                           else (Inr (pad_ideas topic n ideas), w2)))
               else (Inr (pad_ideas topic n ideas), w1)))"

section \<open>The page: \<^verbatim>\<open>main\<close>\<close>

text \<open>
  One run of the script. The session state holds the accumulated ideas and the topic of the
  last successful generation; the widgets deliver their current values on every run. Of
  the page's output, the messages of the two button handlers and the data of the CSV
  download are kept.
\<close>

record session =
  ss_ideas :: "pystr list"
  ss_topic :: pystr

record ui_inputs =
  ui_env_key :: "pystr option"
  ui_input_key :: pystr
  ui_num_ideas :: int
  ui_temp :: real
  ui_style :: pystr
  ui_tone :: pystr
  ui_topic :: pystr
  ui_gen_btn :: bool
  ui_gen_more_btn :: bool

datatype ui_event =
    ErrorEnterTopic
  | ErrorNoPreviousTopic
  | ShowException error
  | SuccessGenerated nat
  | SuccessAppended nat nat

definition set_api_key_from_env_or_input :: "pystr option \<Rightarrow> pystr \<Rightarrow> world \<Rightarrow> world" where
  "set_api_key_from_env_or_input env_key input_key w =
     (if input_key \<noteq> [] then w\<lparr>api_key := Some input_key\<rparr>
      else if truthy env_key then w\<lparr>api_key := env_key\<rparr>
      else w)"

text \<open>The handler of the button \<^verbatim>\<open>Generate Ideas\<close>.\<close>

definition main_generate ::
    "pylib \<Rightarrow> service \<Rightarrow> ui_inputs \<Rightarrow> session \<Rightarrow> world \<Rightarrow> session \<times> world \<times> ui_event list" where
  "main_generate L svc u s w =
     (if ui_topic u = [] then (s, w, [ErrorEnterTopic])
      else
        (case generate_ideas L svc (ui_topic u) (ui_num_ideas u) (ui_style u) (ui_tone u)
                (ui_temp u) w of
           (Inr ideas, w') \<Rightarrow>
             (s\<lparr>ss_ideas := ideas, ss_topic := ui_topic u\<rparr>, w', [SuccessGenerated (length ideas)])
         | (Inl e, w') \<Rightarrow> (s, w', [ShowException e])))"

text \<open>The handler of the button \<^verbatim>\<open>Generate More (append)\<close>.\<close>

definition main_generate_more ::
    "pylib \<Rightarrow> service \<Rightarrow> ui_inputs \<Rightarrow> session \<Rightarrow> world \<Rightarrow> session \<times> world \<times> ui_event list" where
  "main_generate_more L svc u s w =
     (if ss_topic s = [] then (s, w, [ErrorNoPreviousTopic])
      else
        (case generate_ideas L svc (ss_topic s) (ui_num_ideas u) (ui_style u) (ui_tone u)
                (ui_temp u) w of
           (Inr more_ideas, w') \<Rightarrow>
             (s\<lparr>ss_ideas := ss_ideas s @ more_ideas\<rparr>, w',
              [SuccessAppended (length more_ideas) (length (ss_ideas s @ more_ideas))])
         | (Inl e, w') \<Rightarrow> (s, w', [ShowException e])))"

definition main ::
    "pylib \<Rightarrow> service \<Rightarrow> ui_inputs \<Rightarrow> session option \<Rightarrow> world
       \<Rightarrow> session \<times> world \<times> ui_event list" where
  "main L svc u stored w0 =
     (let w = set_api_key_from_env_or_input (ui_env_key u) (ui_input_key u) w0;
          s = (case stored of None \<Rightarrow> \<lparr>ss_ideas = [], ss_topic = []\<rparr> | Some s' \<Rightarrow> s');
          (s1, w1, ev1) = (if ui_gen_btn u then main_generate L svc u s w else (s, w, []));
          (s2, w2, ev2) =
            (if ui_gen_more_btn u then main_generate_more L svc u s1 w1 else (s1, w1, []))
      in (s2, w2, ev1 @ ev2))"

subsection \<open>The CSV download\<close>















section \<open>A runtime for concrete runs\<close>

text \<open>
  The theorems below hold for every \<open>pylib\<close>. The closed examples run on this one, which
  is the Python runtime restricted to the texts the examples use: \<open>loads_flat\<close> decodes a
  JSON array of string literals without escapes as \<^verbatim>\<open>json.loads\<close> does and rejects every
  other text, and \<open>ascii_isdigit\<close> is \<^verbatim>\<open>str.isdigit\<close> on ASCII.
\<close>

datatype flat_state = BeforeArray | AfterOpen | InString | AfterString | AfterComma | AfterArray

fun flat_array :: "flat_state \<Rightarrow> pystr \<Rightarrow> pystr list \<Rightarrow> pystr \<Rightarrow> pystr list option" where
  "flat_array st cur strs [] = (if st = AfterArray then Some strs else None)"
| "flat_array InString cur strs (c # cs) =
     (if c = 34 then flat_array AfterString [] (strs @ [cur]) cs
      else if c = 92 \<or> c < 32 then None
      else flat_array InString (cur @ [c]) strs cs)"
| "flat_array st cur strs (c # cs) =
     (if c \<in> set [32, 9, 10, 13] then flat_array st cur strs cs
      else if st = BeforeArray \<and> c = 91 then flat_array AfterOpen [] strs cs
      else if (st = AfterOpen \<or> st = AfterComma) \<and> c = 34 then flat_array InString [] strs cs
      else if (st = AfterOpen \<or> st = AfterString) \<and> c = 93 then flat_array AfterArray [] strs cs
      else if st = AfterString \<and> c = 44 then flat_array AfterComma [] strs cs
      else None)"

definition loads_flat :: "pystr \<Rightarrow> error + json" where
  "loads_flat s =
     (case flat_array BeforeArray [] [] s of
        Some strs \<Rightarrow> Inr (JList (map JStr strs))
      | None \<Rightarrow> Inl JSONDecodeError)"

definition ascii_isdigit :: "pychar \<Rightarrow> bool" where
  "ascii_isdigit c \<longleftrightarrow> 48 \<le> c \<and> c \<le> 57"

definition ascii_lib :: pylib where
  "ascii_lib = \<lparr>json_loads = loads_flat, isdigit = ascii_isdigit\<rparr>"

text \<open>
  A service that answers its \<open>k\<close>-th call with the \<open>k\<close>-th text of a script and fails once the
  script is used up, a world that holds a key and has seen no call, and two runs of the
  page in one session.
\<close>

definition scripted_service :: "pystr list \<Rightarrow> service" where
  "scripted_service texts w req =
     (if length (calls w) < length texts then Inr (texts ! length (calls w))
      else Inl (APIError (ascii ''no answer'')))"

definition keyed_world :: world where
  "keyed_world = \<lparr>api_key = Some (ascii ''sk-test''), calls = []\<rparr>"

definition fresh_world :: world where
  "fresh_world = \<lparr>api_key = None, calls = []\<rparr>"

definition main_twice ::
    "pylib \<Rightarrow> service \<Rightarrow> ui_inputs \<Rightarrow> ui_inputs \<Rightarrow> world \<Rightarrow> session \<times> world \<times> ui_event list" where
  "main_twice L svc u1 u2 w =
     (case main L svc u1 None w of (s1, w1, ev1) \<Rightarrow> main L svc u2 (Some s1) w1)"

text \<open>The widget values of one run; no key is typed in and none is in the environment.\<close>

definition page_inputs ::
    "pystr \<Rightarrow> int \<Rightarrow> pystr \<Rightarrow> pystr \<Rightarrow> real \<Rightarrow> bool \<Rightarrow> bool \<Rightarrow> ui_inputs" where
  "page_inputs topic n style tone temperature gen gen_more =
     \<lparr>ui_env_key = None, ui_input_key = [], ui_num_ideas = n, ui_temp = temperature,
      ui_style = style, ui_tone = tone, ui_topic = topic, ui_gen_btn = gen,
      ui_gen_more_btn = gen_more\<rparr>"

section \<open>The specification's descriptions\<close>

text \<open>
  The fallback path of the parser, described without indices: a line loses its leading
  dashes, bullets and spaces; if a digit follows, it loses the longest prefix made of digits
  and of the characters of \<^verbatim>\<open>".) "\<close> in any order, and what remains is trimmed.
\<close>

definition numbering_char :: "pylib \<Rightarrow> pychar \<Rightarrow> bool" where
  "numbering_char L c \<longleftrightarrow> isdigit L c \<or> c = 46 \<or> c = 41 \<or> c = 32"

definition stripped_line :: "pylib \<Rightarrow> pystr \<Rightarrow> pystr" where
  "stripped_line L line0 =
     (let line = dropWhile (\<lambda>c. c = 45 \<or> c = 8226 \<or> c = 32) line0
      in if line \<noteq> [] \<and> isdigit L (hd line) then strip (dropWhile (numbering_char L) line)
         else line)"

definition fallback_lines :: "pystr \<Rightarrow> pystr list" where
  "fallback_lines text = [strip l. l \<leftarrow> splitlines (strip text), strip l \<noteq> []]"

text \<open>The structured path did not return: it raised or fell out of its \<^verbatim>\<open>if\<close>.\<close>

definition json_path_fails :: "pylib \<Rightarrow> pystr \<Rightarrow> bool" where
  "json_path_fails L text =
     (case try_json_array L (strip text) of Inr (Some ideas) \<Rightarrow> False | _ \<Rightarrow> True)"

text \<open>
  The same step in the words of the specification: after the bullets, a line that starts
  with a digit loses its leading digits and then the characters \<^verbatim>\<open>.\<close>, \<^verbatim>\<open>)\<close> and space
  that follow them.
\<close>

definition claimed_stripped_line :: "pylib \<Rightarrow> pystr \<Rightarrow> pystr" where
  "claimed_stripped_line L line0 =
     (let line = dropWhile (\<lambda>c. c = 45 \<or> c = 8226 \<or> c = 32) line0
      in if line \<noteq> [] \<and> isdigit L (hd line)
         then dropWhile (\<lambda>c. c = 46 \<or> c = 41 \<or> c = 32) (dropWhile (isdigit L) line)
         else line)"

definition claimed_fallback :: "pylib \<Rightarrow> pystr \<Rightarrow> pystr list" where
  "claimed_fallback L text =
     filter (\<lambda>l. l \<noteq> []) (map (claimed_stripped_line L) (fallback_lines text))"

text \<open>
  The padding in the words of the specification: the real ideas, then one placeholder
  \<^verbatim>\<open>"{topic} - idea {position}"\<close> for each missing position up to \<open>n\<close>.
\<close>

definition placeholder :: "pystr \<Rightarrow> int \<Rightarrow> pystr" where
  "placeholder topic p = topic @ ascii '' - idea '' @ str_int p"

definition claimed_padded :: "pystr \<Rightarrow> int \<Rightarrow> pystr list \<Rightarrow> pystr list" where
  "claimed_padded topic n real_ideas =
     real_ideas @ map (placeholder topic) [int (length real_ideas) + 1..n]"




text \<open>The two requests that \<^verbatim>\<open>generate_ideas\<close> can issue.\<close>

definition first_request :: "pystr \<Rightarrow> int \<Rightarrow> pystr \<Rightarrow> pystr \<Rightarrow> real \<Rightarrow> chat_request" where
  "first_request topic n style tone temperature =
     chat_request_for (primary_prompt topic n style tone) temperature DEFAULT_MODEL MAX_TOKENS"

definition second_request :: "pystr \<Rightarrow> int \<Rightarrow> pystr \<Rightarrow> pystr \<Rightarrow> real \<Rightarrow> chat_request" where
  "second_request topic n style tone temperature =
     chat_request_for (fallback_prompt topic n style tone) temperature DEFAULT_MODEL MAX_TOKENS"

text \<open>The world after the given requests were issued.\<close>

definition after_calls :: "world \<Rightarrow> chat_request list \<Rightarrow> world" where
  "after_calls w reqs = w\<lparr>calls := calls w @ reqs\<rparr>"

section \<open>Properties of the parts\<close>

lemma ascii_numbering: "set (ascii ''.) '') = {46, 41, 32}"
  by (simp add: ascii_def)

lemma skip_numbering_eq:
  "skip_numbering L line i = Inr (i + length (takeWhile (numbering_char L) (drop i line)))"
proof (induction L line i rule: skip_numbering.induct)
  case (1 L line i)
  show ?case
  proof (cases "i < length line")
    case False
    then show ?thesis by (simp add: skip_numbering.simps [of L line i])
  next
    case True
    then have d: "drop i line = line ! i # drop (Suc i) line"
      by (simp add: Cons_nth_drop_Suc)
    show ?thesis
    proof (cases "numbering_char L (line ! i)")
      case yes: True
      then have "isdigit L (line ! i) \<or> line ! i \<in> set (ascii ''.) '')"
        by (auto simp: numbering_char_def ascii_numbering)
      with 1 [of "line ! i"] True yes d show ?thesis
        by (simp add: skip_numbering.simps [of L line i] py_get_def)
    next
      case no: False
      then have "\<not> (isdigit L (line ! i) \<or> line ! i \<in> set (ascii ''.) ''))"
        by (auto simp: numbering_char_def ascii_numbering)
      with True no d show ?thesis
        by (simp add: skip_numbering.simps [of L line i] py_get_def)
    qed
  qed
qed

lemma bullets_set: "set (ascii ''-'' @ [BULLET] @ ascii '' '') = {45, 8226, 32}"
  by (auto simp add: ascii_def BULLET_def)

lemma lstrip_bullets:
  "lstrip (ascii ''-'' @ [BULLET] @ ascii '' '') s = dropWhile (\<lambda>c. c = 45 \<or> c = 8226 \<or> c = 32) s"
  unfolding lstrip_def bullets_set by (rule arg_cong [where f = "\<lambda>P. dropWhile P s"]) auto

lemma clean_line_eq: "clean_line L line0 = Inr (stripped_line L line0)"
proof -
  define line where "line = dropWhile (\<lambda>c. c = 45 \<or> c = 8226 \<or> c = 32) line0"
  have d: "drop (length (takeWhile (numbering_char L) line)) line = dropWhile (numbering_char L) line"
    by (simp add: dropWhile_eq_drop)
  show ?thesis
    unfolding clean_line_def stripped_line_def lstrip_bullets line_def [symmetric] Let_def
    by (simp add: py_get_def hd_conv_nth skip_numbering_eq d)
qed

lemma clean_lines_eq:
  "clean_lines L lines cleaned = Inr (cleaned @ filter (\<lambda>l. l \<noteq> []) (map (stripped_line L) lines))"
  by (induction lines arbitrary: cleaned) (simp_all add: clean_line_eq)

lemma extract_cases:
  "extract_json_array L text =
     (case try_json_array L (strip text) of
        Inr (Some ideas) \<Rightarrow> Inr ideas
      | _ \<Rightarrow> Inr (filter (\<lambda>l. l \<noteq> []) (map (stripped_line L) (fallback_lines text))))"
  by (simp add: extract_json_array_def fallback_lines_def clean_lines_eq Let_def
      split: sum.splits option.splits)

lemma all_str_JStr: "all_str (map JStr strs) = Some strs"
  by (induction strs) simp_all

lemma extract_array:
  assumes "json_candidate (strip text) = Inr candidate"
    and "json_loads L candidate = Inr (JList (map JStr strs))"
  shows "extract_json_array L text = Inr (filter (\<lambda>s. s \<noteq> []) (map strip strs))"
proof -
  have "[strip i. i \<leftarrow> strs, i \<noteq> [] \<and> strip i \<noteq> []] = filter (\<lambda>s. s \<noteq> []) (map strip strs)"
    by (induction strs) (auto simp: strip_def)
  with assms show ?thesis
    by (simp add: extract_cases try_json_array_def all_str_JStr)
qed

lemma str_nat_small: "n < 10 \<Longrightarrow> str_nat n = [48 + n]"
  by (simp add: str_nat.simps [of n])


lemma pad_ideas_nonempty:
  "result \<noteq> [] \<Longrightarrow>
   pad_ideas topic n result = result @ replicate (nat (n - int (length result))) (last result)"
proof (induction topic n result rule: pad_ideas.induct)
  case (1 topic n result)
  show ?case
  proof (cases "int (length result) < n")
    case False
    then show ?thesis by (simp add: pad_ideas.simps [of topic n result])
  next
    case True
    then have "nat (n - int (length result)) = Suc (nat (n - int (length result) - 1))"
      by simp
    with 1 True show ?thesis
      by (simp add: pad_ideas.simps [of topic n result] replicate_app_Cons_same)
  qed
qed

lemma pad_ideas_empty:
  "0 < n \<Longrightarrow> pad_ideas topic n [] = replicate (nat n) (topic @ ascii '' - idea 1'')"
proof -
  assume n: "0 < n"
  have s: "str_int 1 = [49]"
    by (simp add: str_int_def str_nat_small)
  from n have "nat n = Suc (nat (n - 1))" by simp
  with n s show ?thesis
    by (simp add: pad_ideas.simps [of topic n "[]"] pad_ideas_nonempty ascii_def)
qed

lemma length_pad_ideas: "length (pad_ideas topic n result) = max (length result) (nat n)"
proof (cases "result = []")
  case False
  then show ?thesis by (simp add: pad_ideas_nonempty)
next
  case True
  show ?thesis
  proof (cases "0 < n")
    case pos: True
    with True show ?thesis by (simp add: pad_ideas_empty)
  next
    case False
    with True show ?thesis by (simp add: pad_ideas.simps [of topic n "[]"])
  qed
qed

lemma generate_ideas_padded:
  assumes "truthy (api_key w)"
    and "svc w (first_request topic n style tone temperature) = Inr raw"
    and "extract_json_array L raw = Inr ideas"
    and "int (length ideas) < n"
    and "svc (after_calls w [first_request topic n style tone temperature])
           (second_request topic n style tone temperature) = Inr raw2"
    and "extract_json_array L raw2 = Inr ideas2"
    and "int (length ideas2) < n"
  shows "generate_ideas L svc topic n style tone temperature w =
           (Inr (pad_ideas topic n ideas),
            after_calls w [first_request topic n style tone temperature,
                           second_request topic n style tone temperature])"
  using assms
  by (simp add: generate_ideas_def call_openai_chat_def Let_def first_request_def
      second_request_def after_calls_def)

lemma py_prefix_all: "py_prefix xs (int (length xs)) = xs"
  by (simp add: py_prefix_def)

lemma generate_ideas_first:
  assumes "truthy (api_key w)"
    and "svc w (first_request topic n style tone temperature) = Inr raw"
    and "extract_json_array L raw = Inr ideas"
    and "n \<le> int (length ideas)"
  shows "generate_ideas L svc topic n style tone temperature w =
           (Inr (py_prefix ideas n), after_calls w [first_request topic n style tone temperature])"
  using assms
  by (simp add: generate_ideas_def call_openai_chat_def Let_def first_request_def after_calls_def)

lemma generate_ideas_no_key:
  "\<not> truthy (api_key w) \<Longrightarrow>
   generate_ideas L svc topic n style tone temperature w =
     (Inl (RuntimeError (ascii ''OpenAI API key is not set.'')), w)"
  by (simp add: generate_ideas_def call_openai_chat_def)


















text \<open>Facts that evaluate the parser and the service on a concrete text.\<close>

lemmas eval_parser =
  try_json_array_def json_candidate_def py_index_def py_rindex_def py_slice_def
  loads_flat_def fallback_lines_def stripped_line_def numbering_char_def ascii_lib_def
  ascii_isdigit_def strip_def isspace_def splitlines_def islinebreak_def ascii_def BULLET_def
  Let_def

lemmas eval_service =
  scripted_service_def keyed_world_def fresh_world_def after_calls_def truthy_def ascii_def

section \<open>The claims\<close>

subsection \<open>The response parser\<close>



text \<open>
  Claim C3. For every input string and every behaviour of the runtime,
  \<^verbatim>\<open>extract_json_array\<close> returns a list and raises nothing: the exceptions of
  \<^verbatim>\<open>index\<close>, \<^verbatim>\<open>rindex\<close> and \<^verbatim>\<open>json.loads\<close> are caught, and the indexing of the fallback
  loop stays in range. On the empty string the result is the empty list.
\<close>

theorem extract_json_array_never_raises:
  "(\<exists>ideas. extract_json_array L text = Inr ideas) \<and> extract_json_array L [] = Inr []"
proof
  show "\<exists>ideas. extract_json_array L text = Inr ideas"
    by (simp add: extract_cases split: sum.splits option.splits)
  show "extract_json_array L [] = Inr []"
    by (simp add: extract_cases try_json_array_def json_candidate_def py_index_def
        fallback_lines_def strip_def splitlines_def)
qed

text \<open>
  Claim C6, as amended. On the fallback path every trimmed line that is not empty first loses
  its leading run of \<^verbatim>\<open>-\<close>, bullet and space; if it then starts with a digit, it loses the
  longest leading run of characters that are digits or one of \<^verbatim>\<open>.\<close>, \<^verbatim>\<open>)\<close> and space, in
  any order, and the remainder is trimmed; the line is kept if it is not empty afterwards.
\<close>

theorem fallback_strips_markers:
  assumes "json_path_fails L text"
  shows "extract_json_array L text =
           Inr (filter (\<lambda>l. l \<noteq> []) (map (stripped_line L) (fallback_lines text)))"
  using assms by (simp add: extract_cases json_path_fails_def split: sum.splits option.splits)

theorem fallback_strips_markers_witness:
  "json_path_fails ascii_lib
     (ascii ''1. Write a post'' @ [10] @ ascii ''- Record a video'' @ [10, BULLET] @ ascii '' Share a story'')
   \<and> extract_json_array ascii_lib
     (ascii ''1. Write a post'' @ [10] @ ascii ''- Record a video'' @ [10, BULLET] @ ascii '' Share a story'')
     = Inr [ascii ''Write a post'', ascii ''Record a video'', ascii ''Share a story'']"
proof -
  have f: "json_path_fails ascii_lib
     (ascii ''1. Write a post'' @ [10] @ ascii ''- Record a video'' @ [10, BULLET] @ ascii '' Share a story'')"
    by (simp add: json_path_fails_def eval_parser)
  show ?thesis
    using f fallback_strips_markers [OF f] by (simp add: eval_parser)
qed

text \<open>
  The claim as the specification words it (the leading digits, then the punctuation that
  follows them) fails on two lines. On \<^verbatim>\<open>1.2 abc\<close> the program also removes the digit after
  the dot and returns \<^verbatim>\<open>abc\<close>, where the wording leaves \<^verbatim>\<open>2 abc\<close>. On \<^verbatim>\<open>1.\<close>, a tab and
  \<^verbatim>\<open>abc\<close> the program trims the remainder and returns \<^verbatim>\<open>abc\<close>, where the wording leaves the
  tab in front.
\<close>

theorem fallback_strips_markers_counterexample:
  "json_path_fails ascii_lib (ascii ''1.2 abc'')
   \<and> extract_json_array ascii_lib (ascii ''1.2 abc'') = Inr [ascii ''abc'']
   \<and> claimed_fallback ascii_lib (ascii ''1.2 abc'') = [ascii ''2 abc'']
   \<and> json_path_fails ascii_lib (ascii ''1.'' @ [9] @ ascii ''abc'')
   \<and> extract_json_array ascii_lib (ascii ''1.'' @ [9] @ ascii ''abc'') = Inr [ascii ''abc'']
   \<and> claimed_fallback ascii_lib (ascii ''1.'' @ [9] @ ascii ''abc'') = [[9] @ ascii ''abc'']"
  by (simp add: extract_cases json_path_fails_def claimed_fallback_def claimed_stripped_line_def
      eval_parser)

subsection \<open>The idea generator\<close>

text \<open>
  Claim C1, as amended. When both calls succeed and both parsed answers hold fewer than
  \<open>n\<close> ideas, \<^verbatim>\<open>generate_ideas\<close> returns a list of length exactly \<open>n\<close> that starts with the
  \<open>k\<close> ideas parsed from the first answer. If \<open>k \<ge> 1\<close> the remaining \<open>n - k\<close> elements are
  copies of the \<open>k\<close>-th idea; if \<open>k = 0\<close> the first element is the placeholder
  \<^verbatim>\<open>"{topic} - idea 1"\<close>. The ideas of the second answer are not used.
\<close>

theorem generate_ideas_pads_short_answers:
  assumes "truthy (api_key w)"
    and "svc w (first_request topic n style tone temperature) = Inr raw"
    and "extract_json_array L raw = Inr ideas"
    and "int (length ideas) < n"
    and "svc (after_calls w [first_request topic n style tone temperature])
           (second_request topic n style tone temperature) = Inr raw2"
    and "extract_json_array L raw2 = Inr ideas2"
    and "int (length ideas2) < n"
  shows "generate_ideas L svc topic n style tone temperature w =
           (Inr (pad_ideas topic n ideas),
            after_calls w [first_request topic n style tone temperature,
                           second_request topic n style tone temperature])
         \<and> length (pad_ideas topic n ideas) = nat n
         \<and> take (length ideas) (pad_ideas topic n ideas) = ideas
         \<and> (ideas \<noteq> [] \<longrightarrow>
              drop (length ideas) (pad_ideas topic n ideas)
                = replicate (nat n - length ideas) (last ideas))
         \<and> (ideas = [] \<longrightarrow> hd (pad_ideas topic n ideas) = placeholder topic 1)"
proof -
  have g: "generate_ideas L svc topic n style tone temperature w =
           (Inr (pad_ideas topic n ideas),
            after_calls w [first_request topic n style tone temperature,
                           second_request topic n style tone temperature])"
    using assms by (rule generate_ideas_padded)
  from assms(4) have len: "length (pad_ideas topic n ideas) = nat n"
    by (simp add: length_pad_ideas)
  have pre: "take (length ideas) (pad_ideas topic n ideas) = ideas"
  proof (cases "ideas = []")
    case True
    then show ?thesis by simp
  next
    case False
    then show ?thesis by (simp add: pad_ideas_nonempty)
  qed
  have rest: "ideas \<noteq> [] \<longrightarrow>
      drop (length ideas) (pad_ideas topic n ideas) = replicate (nat n - length ideas) (last ideas)"
  proof
    assume "ideas \<noteq> []"
    moreover have "nat (n - int (length ideas)) = nat n - length ideas"
      by simp
    ultimately show "drop (length ideas) (pad_ideas topic n ideas)
        = replicate (nat n - length ideas) (last ideas)"
      by (simp add: pad_ideas_nonempty)
  qed
  have first: "ideas = [] \<longrightarrow> hd (pad_ideas topic n ideas) = placeholder topic 1"
  proof
    assume e: "ideas = []"
    with assms(4) have "0 < n" by simp
    then have "nat n = Suc (nat (n - 1))" by simp
    with e \<open>0 < n\<close> show "hd (pad_ideas topic n ideas) = placeholder topic 1"
      by (simp add: pad_ideas_empty placeholder_def str_int_def str_nat_small ascii_def)
  qed
  from g len pre rest first show ?thesis by simp
qed

theorem generate_ideas_pads_short_answers_witness:
  "generate_ideas ascii_lib (scripted_service [ascii ''A'', []]) (ascii ''t'') 3
       (ascii ''General'') (ascii ''Practical'') (7 / 10) keyed_world =
     (Inr [ascii ''A'', ascii ''A'', ascii ''A''],
      after_calls keyed_world
        [first_request (ascii ''t'') 3 (ascii ''General'') (ascii ''Practical'') (7 / 10),
         second_request (ascii ''t'') 3 (ascii ''General'') (ascii ''Practical'') (7 / 10)])"
proof -
  have k: "truthy (api_key keyed_world)"
    by (simp add: eval_service)
  have r1: "scripted_service [ascii ''A'', []] keyed_world
      (first_request (ascii ''t'') 3 (ascii ''General'') (ascii ''Practical'') (7 / 10)) = Inr (ascii ''A'')"
    by (simp add: eval_service)
  have e1: "extract_json_array ascii_lib (ascii ''A'') = Inr [ascii ''A'']"
    by (simp add: extract_cases eval_parser)
  have r2: "scripted_service [ascii ''A'', []]
      (after_calls keyed_world
         [first_request (ascii ''t'') 3 (ascii ''General'') (ascii ''Practical'') (7 / 10)])
      (second_request (ascii ''t'') 3 (ascii ''General'') (ascii ''Practical'') (7 / 10)) = Inr []"
    by (simp add: eval_service)
  have e2: "extract_json_array ascii_lib [] = Inr []"
    by (simp add: extract_cases eval_parser)
  have "pad_ideas (ascii ''t'') 3 [ascii ''A''] = [ascii ''A'', ascii ''A'', ascii ''A'']"
    by (simp add: pad_ideas_nonempty numeral_2_eq_2)
  with generate_ideas_pads_short_answers [OF k r1 e1 _ r2 e2] show ?thesis
    by simp
qed

text \<open>
  The claim as the specification words it fails for one real idea and \<open>n = 3\<close>: the program
  returns the idea three times, the wording asks for the idea and two numbered placeholders.
\<close>

theorem generate_ideas_pads_short_answers_counterexample:
  "fst (generate_ideas ascii_lib (scripted_service [ascii ''A'', []]) (ascii ''t'') 3
       (ascii ''General'') (ascii ''Practical'') (7 / 10) keyed_world)
     = Inr [ascii ''A'', ascii ''A'', ascii ''A'']
   \<and> claimed_padded (ascii ''t'') 3 [ascii ''A'']
     = [ascii ''A'', ascii ''t - idea 2'', ascii ''t - idea 3'']"
proof -
  have k: "truthy (api_key keyed_world)"
    by (simp add: eval_service)
  have r1: "scripted_service [ascii ''A'', []] keyed_world
      (first_request (ascii ''t'') 3 (ascii ''General'') (ascii ''Practical'') (7 / 10)) = Inr (ascii ''A'')"
    by (simp add: eval_service)
  have e1: "extract_json_array ascii_lib (ascii ''A'') = Inr [ascii ''A'']"
    by (simp add: extract_cases eval_parser)
  have r2: "scripted_service [ascii ''A'', []]
      (after_calls keyed_world
         [first_request (ascii ''t'') 3 (ascii ''General'') (ascii ''Practical'') (7 / 10)])
      (second_request (ascii ''t'') 3 (ascii ''General'') (ascii ''Practical'') (7 / 10)) = Inr []"
    by (simp add: eval_service)
  have e2: "extract_json_array ascii_lib [] = Inr []"
    by (simp add: extract_cases eval_parser)
  have p: "pad_ideas (ascii ''t'') 3 [ascii ''A''] = [ascii ''A'', ascii ''A'', ascii ''A'']"
    by (simp add: pad_ideas_nonempty numeral_2_eq_2)
  have "fst (generate_ideas ascii_lib (scripted_service [ascii ''A'', []]) (ascii ''t'') 3
       (ascii ''General'') (ascii ''Practical'') (7 / 10) keyed_world)
     = Inr [ascii ''A'', ascii ''A'', ascii ''A'']"
    using generate_ideas_padded [OF k r1 e1 _ r2 e2] p by simp
  moreover have "claimed_padded (ascii ''t'') 3 [ascii ''A'']
     = [ascii ''A'', ascii ''t - idea 2'', ascii ''t - idea 3'']"
    by (simp add: claimed_padded_def placeholder_def str_int_def str_nat_small ascii_def
        upto.simps)
  ultimately show ?thesis by simp
qed

text \<open>
  Claim C4. One invocation of \<^verbatim>\<open>generate_ideas\<close> adds at most two requests to the calls
  issued to the remote service, whatever the service answers.
\<close>

theorem generate_ideas_at_most_two_calls:
  "\<exists>new. calls (snd (generate_ideas L svc topic n style tone temperature w)) = calls w @ new
      \<and> length new \<le> 2"
  by (auto simp: generate_ideas_def call_openai_chat_def Let_def split: sum.splits)

text \<open>
  Claim C10. When both calls succeed, the first parsed answer holds \<open>k\<close> ideas with
  \<open>1 \<le> k < n\<close> and the second holds fewer than \<open>n\<close>, the result is the \<open>k\<close> ideas of the
  first answer followed by \<open>n - k\<close> copies of the last of them; the second answer's ideas do
  not occur in it.
\<close>

theorem generate_ideas_repeats_last_idea:
  assumes "truthy (api_key w)"
    and "svc w (first_request topic n style tone temperature) = Inr raw"
    and "extract_json_array L raw = Inr ideas"
    and "1 \<le> length ideas"
    and "int (length ideas) < n"
    and "svc (after_calls w [first_request topic n style tone temperature])
           (second_request topic n style tone temperature) = Inr raw2"
    and "extract_json_array L raw2 = Inr ideas2"
    and "int (length ideas2) < n"
  shows "generate_ideas L svc topic n style tone temperature w =
           (Inr (ideas @ replicate (nat n - length ideas) (last ideas)),
            after_calls w [first_request topic n style tone temperature,
                           second_request topic n style tone temperature])"
proof -
  from assms(4) have "ideas \<noteq> []" by auto
  moreover have "nat (n - int (length ideas)) = nat n - length ideas" by simp
  ultimately have "pad_ideas topic n ideas = ideas @ replicate (nat n - length ideas) (last ideas)"
    by (simp add: pad_ideas_nonempty)
  with generate_ideas_padded [OF assms(1-3) assms(5-8)] show ?thesis by simp
qed

theorem generate_ideas_repeats_last_idea_witness:
  "generate_ideas ascii_lib (scripted_service [ascii ''[\"A\", \"B\"]'', ascii ''C''])
       (ascii ''t'') 4 (ascii ''How-to'') (ascii ''Funny'') (1 / 2) keyed_world =
     (Inr [ascii ''A'', ascii ''B'', ascii ''B'', ascii ''B''],
      after_calls keyed_world
        [first_request (ascii ''t'') 4 (ascii ''How-to'') (ascii ''Funny'') (1 / 2),
         second_request (ascii ''t'') 4 (ascii ''How-to'') (ascii ''Funny'') (1 / 2)])"
proof -
  have k: "truthy (api_key keyed_world)"
    by (simp add: eval_service)
  have r1: "scripted_service [ascii ''[\"A\", \"B\"]'', ascii ''C''] keyed_world
      (first_request (ascii ''t'') 4 (ascii ''How-to'') (ascii ''Funny'') (1 / 2))
        = Inr (ascii ''[\"A\", \"B\"]'')"
    by (simp add: eval_service)
  have e1: "extract_json_array ascii_lib (ascii ''[\"A\", \"B\"]'') = Inr [ascii ''A'', ascii ''B'']"
    by (simp add: extract_cases eval_parser)
  have r2: "scripted_service [ascii ''[\"A\", \"B\"]'', ascii ''C'']
      (after_calls keyed_world
         [first_request (ascii ''t'') 4 (ascii ''How-to'') (ascii ''Funny'') (1 / 2)])
      (second_request (ascii ''t'') 4 (ascii ''How-to'') (ascii ''Funny'') (1 / 2)) = Inr (ascii ''C'')"
    by (simp add: eval_service)
  have e2: "extract_json_array ascii_lib (ascii ''C'') = Inr [ascii ''C'']"
    by (simp add: extract_cases eval_parser)
  show ?thesis
    using generate_ideas_repeats_last_idea
      [where svc = "scripted_service [ascii ''[\"A\", \"B\"]'', ascii ''C'']", OF k r1 e1 _ _ r2 e2]
    by (simp add: numeral_2_eq_2)
qed

text \<open>
  Claim C5, as amended. When the key is set and the first answer is a JSON array of exactly
  \<open>n\<close> strings, each of them not empty and free of leading and trailing whitespace,
  \<^verbatim>\<open>generate_ideas\<close> returns those \<open>n\<close> strings unchanged and issues exactly one call.
\<close>

theorem generate_ideas_clean_array:
  assumes "truthy (api_key w)"
    and "svc w (first_request topic n style tone temperature) = Inr raw"
    and "json_candidate (strip raw) = Inr candidate"
    and "json_loads L candidate = Inr (JList (map JStr strs))"
    and "int (length strs) = n"
    and "list_all (\<lambda>s. s \<noteq> [] \<and> strip s = s) strs"
  shows "generate_ideas L svc topic n style tone temperature w =
           (Inr strs, after_calls w [first_request topic n style tone temperature])"
proof -
  from assms(6) have "filter (\<lambda>s. s \<noteq> []) (map strip strs) = strs"
    by (induction strs) simp_all
  with extract_array [OF assms(3,4)] have e: "extract_json_array L raw = Inr strs"
    by simp
  from assms(5) have "n \<le> int (length strs)" by simp
  from generate_ideas_first [where svc = svc, OF assms(1,2) e this] assms(5) show ?thesis
    by (auto simp: py_prefix_all)
qed

theorem generate_ideas_clean_array_witness:
  "generate_ideas ascii_lib (scripted_service [ascii ''[\"Idea A\", \"Idea B\"]''])
       (ascii ''t'') 2 (ascii ''General'') (ascii ''Practical'') (7 / 10) keyed_world =
     (Inr [ascii ''Idea A'', ascii ''Idea B''],
      after_calls keyed_world
        [first_request (ascii ''t'') 2 (ascii ''General'') (ascii ''Practical'') (7 / 10)])"
proof -
  have k: "truthy (api_key keyed_world)"
    by (simp add: eval_service)
  have r1: "scripted_service [ascii ''[\"Idea A\", \"Idea B\"]''] keyed_world
      (first_request (ascii ''t'') 2 (ascii ''General'') (ascii ''Practical'') (7 / 10))
        = Inr (ascii ''[\"Idea A\", \"Idea B\"]'')"
    by (simp add: eval_service)
  have c: "json_candidate (strip (ascii ''[\"Idea A\", \"Idea B\"]''))
      = Inr (ascii ''[\"Idea A\", \"Idea B\"]'')"
    by (simp add: eval_parser)
  have l: "json_loads ascii_lib (ascii ''[\"Idea A\", \"Idea B\"]'')
      = Inr (JList (map JStr [ascii ''Idea A'', ascii ''Idea B'']))"
    by (simp add: eval_parser)
  have t: "list_all (\<lambda>s. s \<noteq> [] \<and> strip s = s) [ascii ''Idea A'', ascii ''Idea B'']"
    by (simp add: eval_parser)
  have n: "int (length [ascii ''Idea A'', ascii ''Idea B'']) = 2"
    by simp
  show ?thesis
    using generate_ideas_clean_array
      [where svc = "scripted_service [ascii ''[\"Idea A\", \"Idea B\"]'']", OF k r1 c l n t]
    by simp
qed

text \<open>
  The claim as the specification words it fails for an array of two distinct strings of which
  one is empty: the parser drops the empty string, a second call is issued, and the result
  holds the first string twice.
\<close>

theorem generate_ideas_clean_array_counterexample:
  "json_loads ascii_lib (ascii ''[\"Idea A\", \"\"]'') = Inr (JList [JStr (ascii ''Idea A''), JStr []])
   \<and> generate_ideas ascii_lib
       (scripted_service [ascii ''[\"Idea A\", \"\"]'', ascii ''[\"Idea A\", \"\"]''])
       (ascii ''t'') 2 (ascii ''General'') (ascii ''Practical'') (7 / 10) keyed_world =
     (Inr [ascii ''Idea A'', ascii ''Idea A''],
      after_calls keyed_world
        [first_request (ascii ''t'') 2 (ascii ''General'') (ascii ''Practical'') (7 / 10),
         second_request (ascii ''t'') 2 (ascii ''General'') (ascii ''Practical'') (7 / 10)])"
proof -
  have l: "json_loads ascii_lib (ascii ''[\"Idea A\", \"\"]'') = Inr (JList [JStr (ascii ''Idea A''), JStr []])"
    by (simp add: eval_parser)
  have k: "truthy (api_key keyed_world)"
    by (simp add: eval_service)
  have r1: "scripted_service [ascii ''[\"Idea A\", \"\"]'', ascii ''[\"Idea A\", \"\"]''] keyed_world
      (first_request (ascii ''t'') 2 (ascii ''General'') (ascii ''Practical'') (7 / 10))
        = Inr (ascii ''[\"Idea A\", \"\"]'')"
    by (simp add: eval_service)
  have e: "extract_json_array ascii_lib (ascii ''[\"Idea A\", \"\"]'') = Inr [ascii ''Idea A'']"
    by (simp add: extract_cases eval_parser)
  have r2: "scripted_service [ascii ''[\"Idea A\", \"\"]'', ascii ''[\"Idea A\", \"\"]'']
      (after_calls keyed_world
         [first_request (ascii ''t'') 2 (ascii ''General'') (ascii ''Practical'') (7 / 10)])
      (second_request (ascii ''t'') 2 (ascii ''General'') (ascii ''Practical'') (7 / 10))
        = Inr (ascii ''[\"Idea A\", \"\"]'')"
    by (simp add: eval_service)
  have p: "pad_ideas (ascii ''t'') 2 [ascii ''Idea A''] = [ascii ''Idea A'', ascii ''Idea A'']"
    by (simp add: pad_ideas_nonempty)
  from generate_ideas_padded
      [where svc = "scripted_service [ascii ''[\"Idea A\", \"\"]'', ascii ''[\"Idea A\", \"\"]'']",
        OF k r1 e _ r2 e] p l
  show ?thesis by simp
qed

text \<open>
  When \<^verbatim>\<open>openai.api_key\<close> is unset at the start of a run and neither the environment nor the
  sidebar supplies a key, a generation fails with the configuration error and leaves the
  world as it was.
\<close>

lemma unset_key_no_call:
  assumes "\<not> truthy (api_key w)" and "\<not> truthy env_key" and "input_key = []"
  shows "generate_ideas L svc topic n style tone temperature
           (set_api_key_from_env_or_input env_key input_key w) =
         (Inl (RuntimeError (ascii ''OpenAI API key is not set.'')), w)"
  using assms by (simp add: set_api_key_from_env_or_input_def generate_ideas_no_key)

text \<open>
  Claim C8: with no credential in the environment and none in the sidebar, a generation fails
  with the configuration error and no remote call is attempted. The program misses one case.
  \<^verbatim>\<open>set_api_key_from_env_or_input\<close> warns \<^verbatim>\<open>No OpenAI API key found\<close> in that situation but
  leaves \<^verbatim>\<open>openai.api_key\<close> as it is, and the attribute outlives the run. Here a first run
  has the key \<^verbatim>\<open>sk-old\<close> in the sidebar and presses nothing; the second run has an empty
  sidebar and no environment key and presses \<^verbatim>\<open>Generate Ideas\<close>: the request is sent with the
  old key and the answer is stored.
\<close>

theorem stale_key_call_issued:
  "main_twice ascii_lib (scripted_service [ascii ''A''])
     ((page_inputs [] 1 (ascii ''General'') (ascii ''Practical'') (7 / 10) False False)
        \<lparr>ui_input_key := ascii ''sk-old''\<rparr>)
     (page_inputs (ascii ''t'') 1 (ascii ''General'') (ascii ''Practical'') (7 / 10) True False)
     fresh_world
   = (\<lparr>ss_ideas = [ascii ''A''], ss_topic = ascii ''t''\<rparr>,
      \<lparr>api_key = Some (ascii ''sk-old''),
       calls = [first_request (ascii ''t'') 1 (ascii ''General'') (ascii ''Practical'') (7 / 10)]\<rparr>,
      [SuccessGenerated 1])"
proof -
  let ?svc = "scripted_service [ascii ''A'']"
  let ?w = "\<lparr>api_key = Some (ascii ''sk-old''), calls = []\<rparr>"
  let ?q = "first_request (ascii ''t'') 1 (ascii ''General'') (ascii ''Practical'') (7 / 10)"
  have k: "truthy (api_key ?w)"
    by (simp add: truthy_def ascii_def)
  have r: "?svc ?w ?q = Inr (ascii ''A'')"
    by (simp add: scripted_service_def)
  have e: "extract_json_array ascii_lib (ascii ''A'') = Inr [ascii ''A'']"
    by (simp add: extract_cases eval_parser)
  have g: "generate_ideas ascii_lib ?svc (ascii ''t'') 1 (ascii ''General'') (ascii ''Practical'')
      (7 / 10) ?w = (Inr [ascii ''A''], after_calls ?w [?q])"
    using generate_ideas_first [where svc = ?svc, OF k r e] by (simp add: py_prefix_def)
  have t: "ascii ''t'' \<noteq> []" "ascii ''sk-old'' \<noteq> []"
    by (simp_all add: ascii_def)
  show ?thesis
    using g t
    by (simp add: main_twice_def main_def main_generate_def page_inputs_def
        set_api_key_from_env_or_input_def truthy_def after_calls_def fresh_world_def Let_def)
qed

subsection \<open>The CSV download\<close>




subsection \<open>The page\<close>

text \<open>
  Claim C7, as amended. A run in which only \<^verbatim>\<open>Generate More\<close> is pressed and a topic is
  stored calls \<^verbatim>\<open>generate_ideas\<close> with the stored topic and with the count, style, tone and
  temperature that the widgets hold in this run; on success the result is appended to the
  session's ideas, on failure the ideas stay as they were.
\<close>

theorem generate_more_appends:
  assumes "ui_gen_more_btn u" and "\<not> ui_gen_btn u" and "ss_topic s \<noteq> []"
  shows "main L svc u (Some s) w0 =
     (case generate_ideas L svc (ss_topic s) (ui_num_ideas u) (ui_style u) (ui_tone u) (ui_temp u)
             (set_api_key_from_env_or_input (ui_env_key u) (ui_input_key u) w0) of
        (Inr more_ideas, w') \<Rightarrow>
          (s\<lparr>ss_ideas := ss_ideas s @ more_ideas\<rparr>, w',
           [SuccessAppended (length more_ideas) (length (ss_ideas s @ more_ideas))])
      | (Inl e, w') \<Rightarrow> (s, w', [ShowException e]))"
  using assms
  by (simp add: main_def main_generate_more_def Let_def split: prod.splits sum.splits)

theorem generate_more_appends_witness:
  "main ascii_lib (scripted_service [ascii ''B''])
     (page_inputs (ascii ''dogs'') 1 (ascii ''Listicle'') (ascii ''Funny'') (1 / 5) False True)
     (Some \<lparr>ss_ideas = [ascii ''A''], ss_topic = ascii ''cats''\<rparr>) keyed_world =
   (\<lparr>ss_ideas = [ascii ''A'', ascii ''B''], ss_topic = ascii ''cats''\<rparr>,
    after_calls keyed_world
      [first_request (ascii ''cats'') 1 (ascii ''Listicle'') (ascii ''Funny'') (1 / 5)],
    [SuccessAppended 1 2])"
proof -
  have k: "truthy (api_key keyed_world)"
    by (simp add: eval_service)
  have r: "scripted_service [ascii ''B''] keyed_world
      (first_request (ascii ''cats'') 1 (ascii ''Listicle'') (ascii ''Funny'') (1 / 5)) = Inr (ascii ''B'')"
    by (simp add: eval_service)
  have e: "extract_json_array ascii_lib (ascii ''B'') = Inr [ascii ''B'']"
    by (simp add: extract_cases eval_parser)
  have n: "(1::int) \<le> int (length [ascii ''B''])"
    by simp
  have g: "generate_ideas ascii_lib (scripted_service [ascii ''B'']) (ascii ''cats'') 1
      (ascii ''Listicle'') (ascii ''Funny'') (1 / 5) keyed_world =
      (Inr [ascii ''B''],
       after_calls keyed_world
         [first_request (ascii ''cats'') 1 (ascii ''Listicle'') (ascii ''Funny'') (1 / 5)])"
    using generate_ideas_first [where svc = "scripted_service [ascii ''B'']", OF k r e n]
    by (simp add: py_prefix_def)
  have t: "ascii ''cats'' \<noteq> []"
    by (simp add: ascii_def)
  show ?thesis
    using generate_more_appends [of
        "page_inputs (ascii ''dogs'') 1 (ascii ''Listicle'') (ascii ''Funny'') (1 / 5) False True"
        "\<lparr>ss_ideas = [ascii ''A''], ss_topic = ascii ''cats''\<rparr>"
        ascii_lib "scripted_service [ascii ''B'']" keyed_world] g t
    by (simp add: page_inputs_def set_api_key_from_env_or_input_def truthy_def)
qed

text \<open>
  The claim as the specification words it fails when the widgets change between the two
  runs: after a generation with style \<^verbatim>\<open>General\<close>, tone \<^verbatim>\<open>Practical\<close> and temperature 0.7,
  a \<^verbatim>\<open>Generate More\<close> with the widgets at \<^verbatim>\<open>Listicle\<close>, \<^verbatim>\<open>Funny\<close> and 0.2 sends a
  request built from the new values.
\<close>

theorem generate_more_appends_counterexample:
  "calls (fst (snd (main_twice ascii_lib (scripted_service [ascii ''A'', ascii ''B''])
       (page_inputs (ascii ''cats'') 1 (ascii ''General'') (ascii ''Practical'') (7 / 10) True False)
       (page_inputs (ascii ''cats'') 1 (ascii ''Listicle'') (ascii ''Funny'') (1 / 5) False True)
       keyed_world)))
   = [first_request (ascii ''cats'') 1 (ascii ''General'') (ascii ''Practical'') (7 / 10),
      first_request (ascii ''cats'') 1 (ascii ''Listicle'') (ascii ''Funny'') (1 / 5)]
   \<and> first_request (ascii ''cats'') 1 (ascii ''Listicle'') (ascii ''Funny'') (1 / 5)
     \<noteq> first_request (ascii ''cats'') 1 (ascii ''General'') (ascii ''Practical'') (7 / 10)"
proof -
  let ?svc = "scripted_service [ascii ''A'', ascii ''B'']"
  let ?q1 = "first_request (ascii ''cats'') 1 (ascii ''General'') (ascii ''Practical'') (7 / 10)"
  let ?q2 = "first_request (ascii ''cats'') 1 (ascii ''Listicle'') (ascii ''Funny'') (1 / 5)"
  have k: "truthy (api_key keyed_world)"
    by (simp add: eval_service)
  have k1: "truthy (api_key (after_calls keyed_world [?q1]))"
    by (simp add: eval_service)
  have r1: "?svc keyed_world ?q1 = Inr (ascii ''A'')"
    by (simp add: eval_service)
  have r2: "?svc (after_calls keyed_world [?q1]) ?q2 = Inr (ascii ''B'')"
    by (simp add: eval_service)
  have e1: "extract_json_array ascii_lib (ascii ''A'') = Inr [ascii ''A'']"
    by (simp add: extract_cases eval_parser)
  have e2: "extract_json_array ascii_lib (ascii ''B'') = Inr [ascii ''B'']"
    by (simp add: extract_cases eval_parser)
  have g1: "generate_ideas ascii_lib ?svc (ascii ''cats'') 1 (ascii ''General'') (ascii ''Practical'')
      (7 / 10) keyed_world = (Inr [ascii ''A''], after_calls keyed_world [?q1])"
    using generate_ideas_first [where svc = ?svc, OF k r1 e1] by (simp add: py_prefix_def)
  have g2: "generate_ideas ascii_lib ?svc (ascii ''cats'') 1 (ascii ''Listicle'') (ascii ''Funny'')
      (1 / 5) (after_calls keyed_world [?q1])
      = (Inr [ascii ''B''], after_calls (after_calls keyed_world [?q1]) [?q2])"
    using generate_ideas_first [where svc = ?svc, OF k1 r2 e2] by (simp add: py_prefix_def)
  have t: "ascii ''cats'' \<noteq> []"
    by (simp add: ascii_def)
  have "calls (fst (snd (main_twice ascii_lib ?svc
       (page_inputs (ascii ''cats'') 1 (ascii ''General'') (ascii ''Practical'') (7 / 10) True False)
       (page_inputs (ascii ''cats'') 1 (ascii ''Listicle'') (ascii ''Funny'') (1 / 5) False True)
       keyed_world))) = [?q1, ?q2]"
    using g1 g2 t
    by (simp add: main_twice_def main_def main_generate_def main_generate_more_def page_inputs_def
        set_api_key_from_env_or_input_def truthy_def after_calls_def keyed_world_def Let_def)
  moreover have "?q2 \<noteq> ?q1"
    by (simp add: first_request_def chat_request_for_def)
  ultimately show ?thesis by simp
qed

end
